theory Spec2Isabelle
  imports Main
begin

section \<open>Python values handled by \<^verbatim>\<open>app.py\<close>\<close>

text \<open>
  The handlers of \<^verbatim>\<open>src/app.py\<close> work on untyped Python values: what
  \<^verbatim>\<open>request.get_json()\<close> parsed from the request body, what the Flask session
  holds, and the dictionaries given to \<^verbatim>\<open>jsonify\<close>. A dictionary is an association
  list read with \<open>map_of\<close> (the parsed body has no key twice). Floating point is not
  modelled: \<open>PFloat z s\<close> stands for a float by the two things the handlers can observe of
  it, whether it is zero (\<open>z\<close>, its truth value) and its rendering \<open>s\<close>.
\<close>

datatype pyval =
    PNone
  | PBool bool
  | PInt int
  | PFloat bool string
  | PStr string
  | PList "pyval list"
  | PDict "(string \<times> pyval) list"

text \<open>The name Python gives the type of a value (\<^verbatim>\<open>type(v).__name__\<close>).\<close>

fun type_name :: "pyval \<Rightarrow> string" where
  "type_name PNone = ''NoneType''"
| "type_name (PBool b) = ''bool''"
| "type_name (PInt i) = ''int''"
| "type_name (PFloat z s) = ''float''"
| "type_name (PStr s) = ''str''"
| "type_name (PList xs) = ''list''"
| "type_name (PDict kvs) = ''dict''"

text \<open>Truth value testing, as \<^verbatim>\<open>or\<close> and \<^verbatim>\<open>not\<close> apply it.\<close>

fun truthy :: "pyval \<Rightarrow> bool" where
  "truthy PNone = False"
| "truthy (PBool b) = b"
| "truthy (PInt i) = (i \<noteq> 0)"
| "truthy (PFloat z s) = (\<not> z)"
| "truthy (PStr s) = (s \<noteq> [])"
| "truthy (PList xs) = (xs \<noteq> [])"
| "truthy (PDict kvs) = (kvs \<noteq> [])"

subsection \<open>Rendering: \<^verbatim>\<open>str\<close> and \<^verbatim>\<open>repr\<close>\<close>

fun nat_digits :: "nat \<Rightarrow> string" where
  "nat_digits n =
     (if n < 10 then [''0123456789'' ! n]
      else nat_digits (n div 10) @ [''0123456789'' ! (n mod 10)])"

definition int_str :: "int \<Rightarrow> string" where
  "int_str i = (if i < 0 then CHR ''-'' # nat_digits (nat (- i)) else nat_digits (nat i))"

definition hex2 :: "nat \<Rightarrow> string" where
  "hex2 n = [''0123456789abcdef'' ! (n div 16 mod 16), ''0123456789abcdef'' ! (n mod 16)]"

text \<open>
  \<^verbatim>\<open>repr\<close> of a string: single quotes unless the string holds a single quote and no
  double quote; the quote and the backslash escaped, tab, newline and carriage return by
  their letters, every other character that is not printable as \<^verbatim>\<open>\xhh\<close>. A
  character of the model is a code point below 256; of these Python takes as not
  printable 0 to 31, 127 to 160 and 173 (the controls, the no-break space and the soft
  hyphen). Text beyond code point 255 is outside the model.
\<close>

definition repr_quote :: "string \<Rightarrow> char" where
  \<open>repr_quote s = (if CHR 0x27 \<in> set s \<and> CHR 0x22 \<notin> set s then CHR 0x22 else CHR 0x27)\<close>

definition printable :: "char \<Rightarrow> bool" where
  "printable c =
     (let n = (of_char c :: nat) in \<not> (n < 32 \<or> (127 \<le> n \<and> n \<le> 160) \<or> n = 173))"

definition repr_char :: "char \<Rightarrow> char \<Rightarrow> string" where
  \<open>repr_char q c =
     (if c = q \<or> c = CHR 0x5C then [CHR 0x5C, c]
      else if c = CHR 0x09 then [CHR 0x5C, CHR ''t'']
      else if c = CHR 0x0A then [CHR 0x5C, CHR ''n'']
      else if c = CHR 0x0D then [CHR 0x5C, CHR ''r'']
      else if \<not> printable c then [CHR 0x5C, CHR ''x''] @ hex2 (of_char c)
      else [c])\<close>

definition repr_str :: "string \<Rightarrow> string" where
  "repr_str s = [repr_quote s] @ concat (map (repr_char (repr_quote s)) s) @ [repr_quote s]"

fun join_str :: "string \<Rightarrow> string list \<Rightarrow> string" where
  "join_str sep [] = []"
| "join_str sep [x] = x"
| "join_str sep (x # y # ys) = x @ sep @ join_str sep (y # ys)"

fun py_repr :: "pyval \<Rightarrow> string" where
  "py_repr PNone = ''None''"
| "py_repr (PBool b) = (if b then ''True'' else ''False'')"
| "py_repr (PInt i) = int_str i"
| "py_repr (PFloat z s) = s"
| "py_repr (PStr s) = repr_str s"
| "py_repr (PList xs) = ''['' @ join_str '', '' (map py_repr xs) @ '']''"
| "py_repr (PDict kvs) =
     ''{'' @ join_str '', '' (map (\<lambda>kv. repr_str (fst kv) @ '': '' @ py_repr (snd kv)) kvs) @ ''}''"

text \<open>\<^verbatim>\<open>str(v)\<close>, which an f-string applies to each value it interpolates.\<close>

definition py_str :: "pyval \<Rightarrow> string" where
  "py_str v = (case v of PStr s \<Rightarrow> s | _ \<Rightarrow> py_repr v)"

subsection \<open>Exceptions\<close>

text \<open>
  The exceptions the handlers can meet: \<open>AttributeError t a\<close> for the attribute \<open>a\<close>
  asked of a value of type \<open>t\<close> that lacks it, and \<open>HTTPException m\<close> for what
  \<^verbatim>\<open>request.get_json()\<close> raises on a body it cannot read (a subclass of
  \<^verbatim>\<open>Exception\<close>), \<open>m\<close> being its \<^verbatim>\<open>str\<close>.
\<close>

datatype py_exn = AttributeError string string | HTTPException string

fun exn_str :: "py_exn \<Rightarrow> string" where
  "exn_str (AttributeError t a) =
     [CHR 0x27] @ t @ [CHR 0x27] @ '' object has no attribute '' @ [CHR 0x27] @ a @ [CHR 0x27]"
| "exn_str (HTTPException m) = m"

text \<open>
  Statements in sequence: an exception raised by the first one (\<open>Inl\<close>) skips the rest.
\<close>

definition and_then :: "py_exn + 'a \<Rightarrow> ('a \<Rightarrow> py_exn + 'b) \<Rightarrow> py_exn + 'b" where
  "and_then r f = (case r of Inl e \<Rightarrow> Inl e | Inr v \<Rightarrow> f v)"

text \<open>
  \<^verbatim>\<open>v.get(k, d)\<close>: only a dictionary has the method; on every other value the attribute
  lookup raises.
\<close>

fun py_get :: "pyval \<Rightarrow> string \<Rightarrow> pyval \<Rightarrow> py_exn + pyval" where
  "py_get (PDict kvs) k d = Inr (case map_of kvs k of None \<Rightarrow> d | Some v \<Rightarrow> v)"
| "py_get v k d = Inl (AttributeError (type_name v) ''get'')"

section \<open>Requests, sessions, responses\<close>

text \<open>
  What a handler reads of the request: the HTTP verb and the outcome of
  \<^verbatim>\<open>request.get_json()\<close>, which either raises or returns the parsed body. The session
  is Flask's dictionary-like object; \<^verbatim>\<open>session.get(k)\<close> is \<open>None\<close> for a missing key.
  A response is the value given to \<^verbatim>\<open>jsonify\<close> with the status code.
  The \<^verbatim>\<open>logger\<close> calls write to the process log only and are left out.
\<close>

record request =
  http_verb :: string
  get_json :: "py_exn + pyval"

type_synonym session = "string \<rightharpoonup> pyval"

type_synonym response = "pyval \<times> nat"

definition session_get :: "session \<Rightarrow> string \<Rightarrow> pyval" where
  "session_get s k = (case s k of None \<Rightarrow> PNone | Some v \<Rightarrow> v)"

definition error_response :: "string \<Rightarrow> nat \<Rightarrow> response" where
  "error_response msg code = (PDict [(''error'', PStr msg)], code)"

section \<open>Helper functions (lines 253 to 305)\<close>

text \<open>
  \<^verbatim>\<open>perform_accessibility_scan(course_id, options)\<close> returns a fixed dictionary; its one
  varying entry is \<^verbatim>\<open>datetime.utcnow().isoformat()\<close>, the clock reading passed here as
  \<open>utcnow_iso\<close>.
\<close>

definition perform_accessibility_scan :: "pyval \<Rightarrow> pyval \<Rightarrow> string \<Rightarrow> pyval" where
  \<open>perform_accessibility_scan course_id options utcnow_iso =
     PDict [
       (''passed'', PInt 127),
       (''warnings'', PInt 8),
       (''errors'', PInt 3),
       (''issues'', PList [
          PDict [
            (''type'', PStr ''error''),
            (''title'', PStr ''Missing Alt Text on Images''),
            (''description'', PStr ''Images must have alternative text for screen readers.''),
            (''location'', PStr ''Page: "Course Introduction"''),
            (''wcagLevel'', PStr ''A''),
            (''wcagCriteria'', PStr ''1.1.1'')
          ]
        ]),
       (''timestamp'', PStr utcnow_iso)
     ]\<close>

definition generate_report :: "string \<Rightarrow> pyval \<Rightarrow> string" where
  "generate_report scan_id format_type =
     ''/downloads/report_'' @ scan_id @ ''.'' @ py_str format_type"

definition get_user_settings :: "pyval \<Rightarrow> pyval" where
  "get_user_settings user_id =
     PDict [
       (''scanDepth'', PStr ''standard''),
       (''wcagLevel'', PStr ''AA''),
       (''emailNotifications'', PBool False),
       (''autoScan'', PBool False),
       (''reportFormat'', PStr ''pdf''),
       (''includeScreenshots'', PBool False)
     ]"

text \<open>\<^verbatim>\<open>save_user_settings\<close> logs a line and returns; it stores nothing.\<close>

definition save_user_settings :: "pyval \<Rightarrow> pyval \<Rightarrow> unit" where
  "save_user_settings user_id settings = ()"

section \<open>The endpoints\<close>

subsection \<open>\<^verbatim>\<open>POST /api/scan\<close>\<close>

text \<open>The dictionary \<^verbatim>\<open>scan_options\<close> built at lines 126 to 131.\<close>

definition scan_options :: "pyval \<Rightarrow> py_exn + pyval" where
  "scan_options data =
     and_then (py_get data ''pages'' (PBool True)) (\<lambda>p.
     and_then (py_get data ''assignments'' (PBool True)) (\<lambda>a.
     and_then (py_get data ''announcements'' (PBool True)) (\<lambda>n.
     and_then (py_get data ''modules'' (PBool False)) (\<lambda>m.
       Inr (PDict [(''pages'', p), (''assignments'', a), (''announcements'', n),
                   (''modules'', m)])))))"

text \<open>
  \<^verbatim>\<open>session.get('course_id') or data.get('courseId')\<close>: the right operand is evaluated
  only when the left one is falsy.
\<close>

definition scan_course_id :: "session \<Rightarrow> pyval \<Rightarrow> py_exn + pyval" where
  "scan_course_id sess data =
     (if truthy (session_get sess ''course_id'') then Inr (session_get sess ''course_id'')
      else py_get data ''courseId'' PNone)"

text \<open>
  The body of the \<^verbatim>\<open>try\<close> block, lines 119 to 138: \<open>Inl\<close> is an exception raised in
  it. The function called at line 136 is the parameter \<open>scan\<close>, so that the arguments
  of that call can be stated; the source calls \<^verbatim>\<open>perform_accessibility_scan\<close>, as
  \<open>run_accessibility_scan_try\<close> below does.
\<close>

definition run_accessibility_scan_try_calling ::
  "(pyval \<Rightarrow> pyval \<Rightarrow> pyval) \<Rightarrow> session \<Rightarrow> request \<Rightarrow> py_exn + response" where
  "run_accessibility_scan_try_calling scan sess req =
     and_then (get_json req) (\<lambda>data.
     and_then (scan_course_id sess data) (\<lambda>course_id.
       if \<not> truthy course_id then Inr (error_response ''Course ID required'' 400)
       else
         and_then (scan_options data) (\<lambda>opts.
           Inr (scan course_id opts, 200))))"

text \<open>The handler: \<^verbatim>\<open>except Exception as e\<close> turns every exception into a 500 response.\<close>

definition run_accessibility_scan_calling ::
  "(pyval \<Rightarrow> pyval \<Rightarrow> pyval) \<Rightarrow> session \<Rightarrow> request \<Rightarrow> response" where
  "run_accessibility_scan_calling scan sess req =
     (case run_accessibility_scan_try_calling scan sess req of
        Inl e \<Rightarrow> error_response (exn_str e) 500
      | Inr r \<Rightarrow> r)"

text \<open>
  The \<^verbatim>\<open>try\<close> block and the handler of the source, where the function called is
  \<^verbatim>\<open>perform_accessibility_scan\<close>, run when the clock reads \<open>utcnow_iso\<close>.
\<close>

definition run_accessibility_scan_try :: "session \<Rightarrow> request \<Rightarrow> string \<Rightarrow> py_exn + response" where
  "run_accessibility_scan_try sess req utcnow_iso =
     run_accessibility_scan_try_calling
       (\<lambda>course_id opts. perform_accessibility_scan course_id opts utcnow_iso) sess req"

definition run_accessibility_scan :: "session \<Rightarrow> request \<Rightarrow> string \<Rightarrow> response" where
  "run_accessibility_scan sess req utcnow_iso =
     run_accessibility_scan_calling
       (\<lambda>course_id opts. perform_accessibility_scan course_id opts utcnow_iso) sess req"

subsection \<open>\<^verbatim>\<open>GET /api/scan/<scan_id>\<close>\<close>

text \<open>Nothing in the \<^verbatim>\<open>try\<close> block of lines 148 to 157 can raise.\<close>

definition get_scan_results :: "string \<Rightarrow> response" where
  "get_scan_results scan_id =
     (PDict [(''scan_id'', PStr scan_id), (''status'', PStr ''completed''), (''results'', PDict [])],
      200)"

subsection \<open>\<^verbatim>\<open>POST /api/export/<scan_id>\<close>\<close>

definition export_report_try :: "string \<Rightarrow> request \<Rightarrow> py_exn + response" where
  "export_report_try scan_id req =
     and_then (get_json req) (\<lambda>data.
     and_then (py_get data ''format'' (PStr ''pdf'')) (\<lambda>report_format.
       Inr (PDict [(''success'', PBool True),
                   (''download_url'', PStr (generate_report scan_id report_format))], 200)))"

definition export_report :: "string \<Rightarrow> request \<Rightarrow> response" where
  "export_report scan_id req =
     (case export_report_try scan_id req of
        Inl e \<Rightarrow> error_response (exn_str e) 500
      | Inr r \<Rightarrow> r)"

subsection \<open>\<^verbatim>\<open>GET\<close> and \<^verbatim>\<open>POST /api/settings\<close>\<close>

text \<open>
  \<^verbatim>\<open>manage_settings\<close> has no \<^verbatim>\<open>try\<close>: an exception of \<^verbatim>\<open>get_json\<close> leaves the
  handler (\<open>Inl\<close>). With a verb that is neither \<^verbatim>\<open>GET\<close> nor \<^verbatim>\<open>POST\<close> the function
  falls off its end and returns \<^verbatim>\<open>None\<close> (\<open>Inr None\<close>).
\<close>

definition manage_settings :: "session \<Rightarrow> request \<Rightarrow> py_exn + response option" where
  "manage_settings sess req =
     (let user_id = session_get sess ''user_id'' in
      if \<not> truthy user_id then Inr (Some (error_response ''Unauthorized'' 403))
      else if http_verb req = ''GET'' then Inr (Some (get_user_settings user_id, 200))
      else if http_verb req = ''POST'' then
        and_then (get_json req) (\<lambda>data.
          let u = save_user_settings user_id data in
          Inr (Some (PDict [(''success'', PBool True)], 200)))
      else Inr None)"

section \<open>Reading responses, and sample inputs\<close>

text \<open>
  What a client reads of a response body: the entry under a key, the keys, the
  \<^verbatim>\<open>issues\<close> list of a scan result, and its issues of one severity (the \<^verbatim>\<open>type\<close>
  entry of an issue).
\<close>

definition dict_item :: "pyval \<Rightarrow> string \<Rightarrow> pyval option" where
  "dict_item v k = (case v of PDict kvs \<Rightarrow> map_of kvs k | _ \<Rightarrow> None)"

definition dict_keys :: "pyval \<Rightarrow> string list" where
  "dict_keys v = (case v of PDict kvs \<Rightarrow> map fst kvs | _ \<Rightarrow> [])"

definition issues_of :: "pyval \<Rightarrow> pyval list" where
  "issues_of r = (case dict_item r ''issues'' of Some (PList xs) \<Rightarrow> xs | _ \<Rightarrow> [])"

definition issues_with_type :: "string \<Rightarrow> pyval \<Rightarrow> pyval list" where
  "issues_with_type sev r = filter (\<lambda>i. dict_item i ''type'' = Some (PStr sev)) (issues_of r)"

text \<open>The one issue written in \<^verbatim>\<open>perform_accessibility_scan\<close>.\<close>

definition placeholder_issue :: pyval where
  \<open>placeholder_issue =
     PDict [
       (''type'', PStr ''error''),
       (''title'', PStr ''Missing Alt Text on Images''),
       (''description'', PStr ''Images must have alternative text for screen readers.''),
       (''location'', PStr ''Page: "Course Introduction"''),
       (''wcagLevel'', PStr ''A''),
       (''wcagCriteria'', PStr ''1.1.1'')
     ]\<close>

definition post :: "py_exn + pyval \<Rightarrow> request" where
  "post body = \<lparr>http_verb = ''POST'', get_json = body\<rparr>"

text \<open>A session as \<^verbatim>\<open>lti_launch\<close> leaves it, a request body, options and settings.\<close>

definition launched_session :: session where
  "launched_session = [''course_id'' \<mapsto> PStr ''12345'', ''user_id'' \<mapsto> PStr ''user-1'']"

definition default_options :: pyval where
  "default_options =
     PDict [(''pages'', PBool True), (''assignments'', PBool True),
            (''announcements'', PBool True), (''modules'', PBool False)]"

definition strict_settings :: pyval where
  "strict_settings =
     PDict [
       (''scanDepth'', PStr ''deep''),
       (''wcagLevel'', PStr ''A''),
       (''emailNotifications'', PBool True),
       (''autoScan'', PBool True),
       (''reportFormat'', PStr ''csv''),
       (''includeScreenshots'', PBool True)
     ]"

section \<open>Shared lemmas\<close>

text \<open>The source's handler, written out.\<close>

lemma run_accessibility_scan_try_eq:
  "run_accessibility_scan_try sess req t =
     and_then (get_json req) (\<lambda>data.
     and_then (scan_course_id sess data) (\<lambda>course_id.
       if \<not> truthy course_id then Inr (error_response ''Course ID required'' 400)
       else
         and_then (scan_options data) (\<lambda>opts.
           Inr (perform_accessibility_scan course_id opts t, 200))))"
  by (simp add: run_accessibility_scan_try_def run_accessibility_scan_try_calling_def)

lemma run_accessibility_scan_eq:
  "run_accessibility_scan sess req t =
     (case run_accessibility_scan_try sess req t of
        Inl e \<Rightarrow> error_response (exn_str e) 500
      | Inr r \<Rightarrow> r)"
  by (simp add: run_accessibility_scan_def run_accessibility_scan_calling_def
      run_accessibility_scan_try_def)

lemma issues_of_scan:
  "issues_of (perform_accessibility_scan c opts t) = [placeholder_issue]"
  by (simp add: issues_of_def dict_item_def perform_accessibility_scan_def placeholder_issue_def)

lemma scan_options_dict:
  "scan_options (PDict kvs) =
     Inr (PDict [
       (''pages'', case map_of kvs ''pages'' of None \<Rightarrow> PBool True | Some v \<Rightarrow> v),
       (''assignments'', case map_of kvs ''assignments'' of None \<Rightarrow> PBool True | Some v \<Rightarrow> v),
       (''announcements'', case map_of kvs ''announcements'' of None \<Rightarrow> PBool True | Some v \<Rightarrow> v),
       (''modules'', case map_of kvs ''modules'' of None \<Rightarrow> PBool False | Some v \<Rightarrow> v)])"
  by (simp add: scan_options_def and_then_def)

text \<open>When the \<^verbatim>\<open>try\<close> block of the scan handler returns, and what.\<close>

lemma run_try_Inr:
  "run_accessibility_scan_try sess req t = Inr r \<longleftrightarrow>
     (\<exists>data course_id. get_json req = Inr data \<and> scan_course_id sess data = Inr course_id \<and>
        (if truthy course_id
         then \<exists>opts. scan_options data = Inr opts \<and>
                r = (perform_accessibility_scan course_id opts t, 200)
         else r = error_response ''Course ID required'' 400))"
proof (cases "get_json req")
  case (Inl e)
  then show ?thesis by (simp add: run_accessibility_scan_try_eq and_then_def)
next
  case data: (Inr data)
  show ?thesis
  proof (cases "scan_course_id sess data")
    case (Inl e)
    with data show ?thesis by (simp add: run_accessibility_scan_try_eq and_then_def)
  next
    case (Inr course_id)
    with data show ?thesis
      by (cases "scan_options data")
         (auto simp: run_accessibility_scan_try_eq and_then_def)
  qed
qed

lemma run_scan_200:
  assumes "snd (run_accessibility_scan sess req t) = 200"
  shows "\<exists>data course_id opts. get_json req = Inr data \<and>
           scan_course_id sess data = Inr course_id \<and> truthy course_id \<and>
           scan_options data = Inr opts \<and>
           run_accessibility_scan sess req t = (perform_accessibility_scan course_id opts t, 200)"
proof (cases "run_accessibility_scan_try sess req t")
  case (Inl e)
  with assms show ?thesis by (simp add: run_accessibility_scan_eq error_response_def)
next
  case (Inr r)
  then have eq: "run_accessibility_scan sess req t = r" by (simp add: run_accessibility_scan_eq)
  from Inr obtain data course_id where d: "get_json req = Inr data"
    and c: "scan_course_id sess data = Inr course_id"
    and r: "if truthy course_id
         then \<exists>opts. scan_options data = Inr opts \<and>
                r = (perform_accessibility_scan course_id opts t, 200)
         else r = error_response ''Course ID required'' 400"
    unfolding run_try_Inr by blast
  show ?thesis
  proof (cases "truthy course_id")
    case True
    with r d c eq show ?thesis by auto
  next
    case False
    with r eq assms show ?thesis by (simp add: error_response_def)
  qed
qed

text \<open>The scan handler on a body that is a JSON object: no exception is possible.\<close>

lemma run_scan_object:
  assumes "get_json req = Inr (PDict kvs)"
    and "scan_course_id sess (PDict kvs) = Inr course_id"
    and "scan_options (PDict kvs) = Inr opts"
  shows "run_accessibility_scan sess req t =
           (if truthy course_id then (perform_accessibility_scan course_id opts t, 200)
            else error_response ''Course ID required'' 400)"
  using assms
  by (simp add: run_accessibility_scan_eq run_accessibility_scan_try_eq and_then_def)

section \<open>The response of a scan request\<close>

text \<open>
  C2, as the specification states it: starting a scan answers at once with a scan
  identifier and a result in state \<^verbatim>\<open>running\<close>, the scan itself running later. The
  handler instead calls \<^verbatim>\<open>perform_accessibility_scan\<close> before it answers and sends
  its whole result: the body has the counts and the issues, and neither a scan identifier
  nor a status.
\<close>

theorem scan_response_is_the_finished_result:
  "run_accessibility_scan Map.empty (post (Inr (PDict [(''courseId'', PStr ''12345'')])))
      ''2024-01-01T00:00:00''
     = (perform_accessibility_scan (PStr ''12345'') default_options ''2024-01-01T00:00:00'', 200)
   \<and> dict_keys (perform_accessibility_scan (PStr ''12345'') default_options ''2024-01-01T00:00:00'')
       = [''passed'', ''warnings'', ''errors'', ''issues'', ''timestamp'']
   \<and> dict_item (perform_accessibility_scan (PStr ''12345'') default_options ''2024-01-01T00:00:00'')
         ''scanId'' = None
   \<and> dict_item (perform_accessibility_scan (PStr ''12345'') default_options ''2024-01-01T00:00:00'')
         ''status'' = None
   \<and> issues_of (perform_accessibility_scan (PStr ''12345'') default_options ''2024-01-01T00:00:00'')
       = [placeholder_issue]"
  by (simp add: run_accessibility_scan_eq run_accessibility_scan_try_eq and_then_def
      post_def scan_course_id_def session_get_def scan_options_def default_options_def
      issues_of_scan)
     (simp add: perform_accessibility_scan_def dict_keys_def dict_item_def)

text \<open>
  C2, amended: the scan runs inside the request. A response with status 200 is the
  value \<^verbatim>\<open>perform_accessibility_scan\<close> returned for the course identifier and the
  options taken from the request; its keys are \<^verbatim>\<open>passed\<close>, \<^verbatim>\<open>warnings\<close>,
  \<^verbatim>\<open>errors\<close>, \<^verbatim>\<open>issues\<close> and \<^verbatim>\<open>timestamp\<close>, so it carries neither a scan identifier
  nor a status.
\<close>

theorem scan_runs_within_the_request:
  assumes "snd (run_accessibility_scan sess req t) = 200"
  shows "(\<exists>data course_id opts. get_json req = Inr data \<and>
            scan_course_id sess data = Inr course_id \<and> scan_options data = Inr opts \<and>
            run_accessibility_scan sess req t
              = (perform_accessibility_scan course_id opts t, 200)) \<and>
         dict_keys (fst (run_accessibility_scan sess req t))
           = [''passed'', ''warnings'', ''errors'', ''issues'', ''timestamp''] \<and>
         dict_item (fst (run_accessibility_scan sess req t)) ''timestamp'' = Some (PStr t)"
proof -
  from run_scan_200[OF assms] obtain data course_id opts where
    d: "get_json req = Inr data" and c: "scan_course_id sess data = Inr course_id"
    and o: "scan_options data = Inr opts"
    and r: "run_accessibility_scan sess req t = (perform_accessibility_scan course_id opts t, 200)"
    by blast
  have keys: "dict_keys (fst (run_accessibility_scan sess req t))
           = [''passed'', ''warnings'', ''errors'', ''issues'', ''timestamp'']"
    by (simp add: r perform_accessibility_scan_def dict_keys_def)
  have stamp: "dict_item (fst (run_accessibility_scan sess req t)) ''timestamp'' = Some (PStr t)"
    by (simp add: r perform_accessibility_scan_def dict_item_def)
  from d c o r keys stamp show ?thesis by blast
qed

theorem scan_runs_within_the_request_witness:
  "snd (run_accessibility_scan launched_session (post (Inr (PDict []))) ''2024-01-01T00:00:00'')
     = 200 \<and>
   dict_keys (fst (run_accessibility_scan launched_session (post (Inr (PDict [])))
                     ''2024-01-01T00:00:00''))
     = [''passed'', ''warnings'', ''errors'', ''issues'', ''timestamp'']"
proof -
  have ok: "snd (run_accessibility_scan launched_session (post (Inr (PDict [])))
                   ''2024-01-01T00:00:00'') = 200"
    by (simp add: run_accessibility_scan_eq run_accessibility_scan_try_eq and_then_def
        post_def scan_course_id_def session_get_def launched_session_def scan_options_def)
  from scan_runs_within_the_request[OF ok] ok show ?thesis by blast
qed

section \<open>Counts and issues of a scan result\<close>

text \<open>
  C3, as the specification states it: \<^verbatim>\<open>errors\<close> and \<^verbatim>\<open>warnings\<close> are the numbers
  of issues of severity error and warning. In the result the code returns they are not:
  \<^verbatim>\<open>errors\<close> is 3 with one error issue listed, \<^verbatim>\<open>warnings\<close> is 8 with no warning
  issue listed.
\<close>

theorem scan_counts_are_not_issue_counts:
  "dict_item (perform_accessibility_scan (PStr ''12345'') default_options ''2024-01-01T00:00:00'')
       ''errors'' = Some (PInt 3)
   \<and> length (issues_with_type ''error''
        (perform_accessibility_scan (PStr ''12345'') default_options ''2024-01-01T00:00:00'')) = 1
   \<and> dict_item (perform_accessibility_scan (PStr ''12345'') default_options ''2024-01-01T00:00:00'')
       ''warnings'' = Some (PInt 8)
   \<and> length (issues_with_type ''warning''
        (perform_accessibility_scan (PStr ''12345'') default_options ''2024-01-01T00:00:00'')) = 0"
  by (simp add: issues_with_type_def issues_of_scan)
     (simp add: perform_accessibility_scan_def dict_item_def placeholder_issue_def)

text \<open>
  C3, amended: every scan result has \<^verbatim>\<open>passed\<close> = 127, \<^verbatim>\<open>warnings\<close> = 8 and
  \<^verbatim>\<open>errors\<close> = 3, whatever the course and the options, and exactly one issue. That
  issue has severity error, so the list holds no entry for a passed check and none of
  severity warning; the counts are not computed from it.
\<close>

theorem scan_counts_and_issues_fixed:
  "dict_item (perform_accessibility_scan course_id opts t) ''passed'' = Some (PInt 127) \<and>
   dict_item (perform_accessibility_scan course_id opts t) ''warnings'' = Some (PInt 8) \<and>
   dict_item (perform_accessibility_scan course_id opts t) ''errors'' = Some (PInt 3) \<and>
   issues_of (perform_accessibility_scan course_id opts t) = [placeholder_issue] \<and>
   issues_with_type ''error'' (perform_accessibility_scan course_id opts t) = [placeholder_issue] \<and>
   issues_with_type ''warning'' (perform_accessibility_scan course_id opts t) = [] \<and>
   issues_with_type ''passed'' (perform_accessibility_scan course_id opts t) = []"
  by (simp add: issues_with_type_def issues_of_scan)
     (simp add: perform_accessibility_scan_def dict_item_def placeholder_issue_def)

section \<open>Retrieving a scan\<close>

text \<open>
  C4, as the specification states it: asking for a scan that was never started gives a
  not-found result. The handler answers 200 with a result marked completed for a scan
  identifier no scan request ever produced.
\<close>

theorem unknown_scan_reported_completed:
  "get_scan_results ''no-such-scan''
     = (PDict [(''scan_id'', PStr ''no-such-scan''), (''status'', PStr ''completed''),
               (''results'', PDict [])], 200)"
  by (simp add: get_scan_results_def)

text \<open>
  C4, amended: for every scan identifier the handler answers 200 with that identifier,
  the status \<^verbatim>\<open>completed\<close> and empty results. It looks nothing up, and never answers
  not-found.
\<close>

theorem get_scan_results_always_completed:
  "snd (get_scan_results scan_id) = 200 \<and>
   dict_keys (fst (get_scan_results scan_id)) = [''scan_id'', ''status'', ''results''] \<and>
   dict_item (fst (get_scan_results scan_id)) ''scan_id'' = Some (PStr scan_id) \<and>
   dict_item (fst (get_scan_results scan_id)) ''status'' = Some (PStr ''completed'') \<and>
   dict_item (fst (get_scan_results scan_id)) ''results'' = Some (PDict []) \<and>
   dict_item (fst (get_scan_results scan_id)) ''error'' = None"
  by (simp add: get_scan_results_def dict_keys_def dict_item_def)

section \<open>Running a scan twice\<close>

text \<open>
  C5, as the specification states it: two runs on the same input give the same result
  payload. Two runs at different times give different payloads, the \<^verbatim>\<open>timestamp\<close>
  being the time of the run.
\<close>

theorem scan_payload_differs_between_runs:
  "perform_accessibility_scan (PStr ''12345'') default_options ''2024-01-01T00:00:00''
     \<noteq> perform_accessibility_scan (PStr ''12345'') default_options ''2024-01-01T00:00:07.250000''"
  by (simp add: perform_accessibility_scan_def)

text \<open>
  C5, amended: two runs on the same course and options give the same issues in the same
  order and the same counts; their payloads are equal exactly when the two clock readings
  are, the \<^verbatim>\<open>timestamp\<close> entry being the only one that varies.
\<close>

theorem scan_repeatable_but_for_timestamp:
  "issues_of (perform_accessibility_scan course_id opts t1)
     = issues_of (perform_accessibility_scan course_id opts t2) \<and>
   dict_item (perform_accessibility_scan course_id opts t1) ''passed''
     = dict_item (perform_accessibility_scan course_id opts t2) ''passed'' \<and>
   dict_item (perform_accessibility_scan course_id opts t1) ''warnings''
     = dict_item (perform_accessibility_scan course_id opts t2) ''warnings'' \<and>
   dict_item (perform_accessibility_scan course_id opts t1) ''errors''
     = dict_item (perform_accessibility_scan course_id opts t2) ''errors'' \<and>
   (perform_accessibility_scan course_id opts t1 = perform_accessibility_scan course_id opts t2)
     = (t1 = t2)"
  by (simp add: issues_of_scan) (auto simp: perform_accessibility_scan_def dict_item_def)

section \<open>Settings\<close>

text \<open>What \<^verbatim>\<open>get_user_settings\<close> returns names level AA, for every user.\<close>

lemma get_user_settings_level:
  "dict_item (get_user_settings user_id) ''wcagLevel'' = Some (PStr ''AA'')"
  by (simp add: get_user_settings_def dict_item_def)

text \<open>
  C7, as the specification states it: settings that were put are the settings a later get
  returns. A user posts settings with level A and deep scans; the post succeeds, and the
  next get returns the built-in settings, which differ.
\<close>

theorem posted_settings_not_returned:
  "manage_settings launched_session (post (Inr strict_settings))
     = Inr (Some (PDict [(''success'', PBool True)], 200))
   \<and> manage_settings launched_session \<lparr>http_verb = ''GET'', get_json = Inr PNone\<rparr>
     = Inr (Some (get_user_settings (PStr ''user-1''), 200))
   \<and> get_user_settings (PStr ''user-1'') \<noteq> strict_settings
   \<and> dict_item (get_user_settings (PStr ''user-1'')) ''wcagLevel'' = Some (PStr ''AA'')
   \<and> dict_item strict_settings ''wcagLevel'' = Some (PStr ''A'')"
  by (simp add: manage_settings_def post_def session_get_def launched_session_def
      and_then_def get_user_settings_def strict_settings_def dict_item_def)

text \<open>
  C7, amended: for a session with a user, a \<^verbatim>\<open>POST\<close> of any settings answers 200 with
  \<^verbatim>\<open>success\<close> and stores nothing, and a \<^verbatim>\<open>GET\<close> answers 200 with the built-in
  settings (standard depth, level AA, pdf, every switch off), whatever was posted before.
\<close>

theorem settings_get_ignores_post:
  assumes "truthy (session_get sess ''user_id'')"
  shows "manage_settings sess \<lparr>http_verb = ''POST'', get_json = Inr posted\<rparr>
           = Inr (Some (PDict [(''success'', PBool True)], 200)) \<and>
         manage_settings sess \<lparr>http_verb = ''GET'', get_json = body\<rparr>
           = Inr (Some (PDict [
                 (''scanDepth'', PStr ''standard''),
                 (''wcagLevel'', PStr ''AA''),
                 (''emailNotifications'', PBool False),
                 (''autoScan'', PBool False),
                 (''reportFormat'', PStr ''pdf''),
                 (''includeScreenshots'', PBool False)], 200))"
  using assms by (simp add: manage_settings_def and_then_def get_user_settings_def)

theorem settings_get_ignores_post_witness:
  "truthy (session_get launched_session ''user_id'') \<and>
   manage_settings launched_session \<lparr>http_verb = ''POST'', get_json = Inr strict_settings\<rparr>
     = Inr (Some (PDict [(''success'', PBool True)], 200)) \<and>
   manage_settings launched_session \<lparr>http_verb = ''GET'', get_json = Inr PNone\<rparr>
     = Inr (Some (PDict [
           (''scanDepth'', PStr ''standard''),
           (''wcagLevel'', PStr ''AA''),
           (''emailNotifications'', PBool False),
           (''autoScan'', PBool False),
           (''reportFormat'', PStr ''pdf''),
           (''includeScreenshots'', PBool False)], 200))"
proof -
  have user: "truthy (session_get launched_session ''user_id'')"
    by (simp add: session_get_def launched_session_def)
  from settings_get_ignores_post[OF user, of strict_settings "Inr PNone"] user
  show ?thesis by simp
qed

section \<open>Scan options\<close>


lemma opts_items:
  assumes "opts = PDict [
       (''pages'', p), (''assignments'', a), (''announcements'', n), (''modules'', m)]"
  shows "dict_item opts ''pages'' = Some p"
    and "dict_item opts ''assignments'' = Some a"
    and "dict_item opts ''announcements'' = Some n"
    and "dict_item opts ''modules'' = Some m"
    and "dict_keys opts = [''pages'', ''assignments'', ''announcements'', ''modules'']"
  by (simp_all add: assms dict_item_def dict_keys_def)

text \<open>The handler on a body that is a JSON object, whatever function it calls for the scan.\<close>

lemma run_calling_object:
  assumes "get_json req = Inr (PDict kvs)"
    and "scan_course_id sess (PDict kvs) = Inr course_id"
    and "scan_options (PDict kvs) = Inr opts"
  shows "run_accessibility_scan_calling scan sess req =
           (if truthy course_id then (scan course_id opts, 200)
            else error_response ''Course ID required'' 400)"
  using assms
  by (simp add: run_accessibility_scan_calling_def run_accessibility_scan_try_calling_def
      and_then_def)

text \<open>
  C8: when the body of a scan request is a JSON object, the scan is called with options
  that hold the four flags; a flag the body omits is \<^verbatim>\<open>True\<close> for pages, assignments
  and announcements and \<^verbatim>\<open>False\<close> for modules, and a flag the body gives keeps its
  value. That these options are the second argument of the call is stated for every
  function \<open>scan\<close> the handler could call, so also for one that returns its options;
  \<^verbatim>\<open>perform_accessibility_scan\<close> is the function the source calls.
\<close>

theorem scan_options_defaults:
  assumes "get_json req = Inr (PDict kvs)"
    and "scan_course_id sess (PDict kvs) = Inr course_id"
    and "truthy course_id"
  shows "\<exists>opts. scan_options (PDict kvs) = Inr opts \<and>
           (\<forall>scan. run_accessibility_scan_calling scan sess req = (scan course_id opts, 200)) \<and>
           run_accessibility_scan sess req t
             = (perform_accessibility_scan course_id opts t, 200) \<and>
           dict_keys opts = [''pages'', ''assignments'', ''announcements'', ''modules''] \<and>
           (map_of kvs ''pages'' = None \<longrightarrow> dict_item opts ''pages'' = Some (PBool True)) \<and>
           (map_of kvs ''assignments'' = None \<longrightarrow>
              dict_item opts ''assignments'' = Some (PBool True)) \<and>
           (map_of kvs ''announcements'' = None \<longrightarrow>
              dict_item opts ''announcements'' = Some (PBool True)) \<and>
           (map_of kvs ''modules'' = None \<longrightarrow> dict_item opts ''modules'' = Some (PBool False)) \<and>
           (\<forall>k \<in> {''pages'', ''assignments'', ''announcements'', ''modules''}.
              \<forall>v. map_of kvs k = Some v \<longrightarrow> dict_item opts k = Some v)"
proof -
  define opts where "opts = PDict [
       (''pages'', case map_of kvs ''pages'' of None \<Rightarrow> PBool True | Some v \<Rightarrow> v),
       (''assignments'', case map_of kvs ''assignments'' of None \<Rightarrow> PBool True | Some v \<Rightarrow> v),
       (''announcements'', case map_of kvs ''announcements'' of None \<Rightarrow> PBool True | Some v \<Rightarrow> v),
       (''modules'', case map_of kvs ''modules'' of None \<Rightarrow> PBool False | Some v \<Rightarrow> v)]"
  have o: "scan_options (PDict kvs) = Inr opts"
    unfolding opts_def by (rule scan_options_dict)
  have call: "run_accessibility_scan_calling scan sess req = (scan course_id opts, 200)"
    for scan
    using run_calling_object[OF assms(1,2) o] assms(3) by simp
  have run: "run_accessibility_scan sess req t
               = (perform_accessibility_scan course_id opts t, 200)"
    unfolding run_accessibility_scan_def by (rule call)
  note items = opts_items[OF opts_def]
  show ?thesis
  proof (intro exI[of _ opts] conjI ballI allI impI)
    show "scan_options (PDict kvs) = Inr opts" by (rule o)
    show "run_accessibility_scan_calling scan sess req = (scan course_id opts, 200)" for scan
      by (rule call)
    show "run_accessibility_scan sess req t
             = (perform_accessibility_scan course_id opts t, 200)" by (rule run)
    show "dict_keys opts = [''pages'', ''assignments'', ''announcements'', ''modules'']"
      by (rule items(5))
    show "dict_item opts ''pages'' = Some (PBool True)" if "map_of kvs ''pages'' = None"
      using that by (simp add: items(1))
    show "dict_item opts ''assignments'' = Some (PBool True)"
      if "map_of kvs ''assignments'' = None"
      using that by (simp add: items(2))
    show "dict_item opts ''announcements'' = Some (PBool True)"
      if "map_of kvs ''announcements'' = None"
      using that by (simp add: items(3))
    show "dict_item opts ''modules'' = Some (PBool False)" if "map_of kvs ''modules'' = None"
      using that by (simp add: items(4))
    show "dict_item opts k = Some v"
      if "k \<in> {''pages'', ''assignments'', ''announcements'', ''modules''}"
        and "map_of kvs k = Some v" for k v
    proof -
      from that(1) consider "k = ''pages''" | "k = ''assignments''" | "k = ''announcements''"
        | "k = ''modules''" by blast
      then show ?thesis
      proof cases
        case 1 with that(2) show ?thesis by (simp add: items(1))
      next
        case 2 with that(2) show ?thesis by (simp add: items(2))
      next
        case 3 with that(2) show ?thesis by (simp add: items(3))
      next
        case 4 with that(2) show ?thesis by (simp add: items(4))
      qed
    qed
  qed
qed

text \<open>
  At a body that gives \<^verbatim>\<open>pages\<close> only, a scan function that returns its second
  argument shows the options of the call: \<^verbatim>\<open>pages\<close> as given, the three others by
  default.
\<close>

theorem scan_options_defaults_witness:
  "scan_options (PDict [(''courseId'', PStr ''777''), (''pages'', PBool False)])
     = Inr (PDict [(''pages'', PBool False), (''assignments'', PBool True),
                   (''announcements'', PBool True), (''modules'', PBool False)]) \<and>
   run_accessibility_scan_calling (\<lambda>course_id opts. opts) Map.empty
       (post (Inr (PDict [(''courseId'', PStr ''777''), (''pages'', PBool False)])))
     = (PDict [(''pages'', PBool False), (''assignments'', PBool True),
               (''announcements'', PBool True), (''modules'', PBool False)], 200) \<and>
   run_accessibility_scan_calling (\<lambda>course_id opts. course_id) Map.empty
       (post (Inr (PDict [(''courseId'', PStr ''777''), (''pages'', PBool False)])))
     = (PStr ''777'', 200)"
proof -
  have body: "get_json (post (Inr (PDict [(''courseId'', PStr ''777''), (''pages'', PBool False)])))
                = Inr (PDict [(''courseId'', PStr ''777''), (''pages'', PBool False)])"
    by (simp add: post_def)
  have course: "scan_course_id Map.empty
                  (PDict [(''courseId'', PStr ''777''), (''pages'', PBool False)])
                = Inr (PStr ''777'')"
    by (simp add: scan_course_id_def session_get_def)
  have given: "truthy (PStr ''777'')" by simp
  have built: "scan_options (PDict [(''courseId'', PStr ''777''), (''pages'', PBool False)])
     = Inr (PDict [(''pages'', PBool False), (''assignments'', PBool True),
                   (''announcements'', PBool True), (''modules'', PBool False)])"
    by (simp add: scan_options_dict)
  from scan_options_defaults[OF body course given, of "''2024-01-01T00:00:00''"]
  show ?thesis
  proof (elim exE conjE)
    fix opts
    assume o: "scan_options (PDict [(''courseId'', PStr ''777''), (''pages'', PBool False)])
                 = Inr opts"
      and call: "\<forall>scan. run_accessibility_scan_calling scan Map.empty
         (post (Inr (PDict [(''courseId'', PStr ''777''), (''pages'', PBool False)])))
         = (scan (PStr ''777'') opts, 200)"
    from o have opts: "opts = PDict [(''pages'', PBool False), (''assignments'', PBool True),
                   (''announcements'', PBool True), (''modules'', PBool False)]"
      unfolding built by simp
    from call have second: "run_accessibility_scan_calling (\<lambda>course_id opts. opts) Map.empty
         (post (Inr (PDict [(''courseId'', PStr ''777''), (''pages'', PBool False)])))
         = (opts, 200)"
      by (rule allE)
    from call have first: "run_accessibility_scan_calling (\<lambda>course_id opts. course_id) Map.empty
         (post (Inr (PDict [(''courseId'', PStr ''777''), (''pages'', PBool False)])))
         = (PStr ''777'', 200)"
      by (rule allE)
    from built second first show ?thesis unfolding opts by (intro conjI)
  qed
qed

section \<open>The course identifier of a scan\<close>

text \<open>
  The course identifier on a body that is a JSON object: the session's when it is truthy,
  else the body's \<^verbatim>\<open>courseId\<close>; status 400 when that is missing or falsy too.
\<close>

lemma scan_course_id_object:
  "scan_course_id sess (PDict kvs) =
     Inr (if truthy (session_get sess ''course_id'') then session_get sess ''course_id''
          else (case map_of kvs ''courseId'' of None \<Rightarrow> PNone | Some v \<Rightarrow> v))"
  by (simp add: scan_course_id_def)

lemma scan_object_without_course:
  assumes "get_json req = Inr (PDict kvs)"
    and "\<not> truthy (session_get sess ''course_id'')"
    and "map_of kvs ''courseId'' = None"
  shows "run_accessibility_scan sess req t = (PDict [(''error'', PStr ''Course ID required'')], 400)"
  using run_scan_object[OF assms(1) scan_course_id_object scan_options_dict, of sess t] assms(2,3)
  by (simp add: error_response_def)

text \<open>
  C9 at a request with no course identifier in the session and the JSON body
  \<^verbatim>\<open>null\<close>: \<^verbatim>\<open>data\<close> is \<^verbatim>\<open>None\<close>, \<^verbatim>\<open>data.get('courseId')\<close> raises, and the
  answer is status 500 with the text of the AttributeError, where the claim has status 400
  and \<^verbatim>\<open>Course ID required\<close>.
\<close>

theorem scan_null_body_without_course_gives_500:
  "run_accessibility_scan Map.empty (post (Inr PNone)) t
     = (PDict [(''error'', PStr (exn_str (AttributeError ''NoneType'' ''get'')))], 500)"
  by (simp add: run_accessibility_scan_eq run_accessibility_scan_try_eq and_then_def
      post_def scan_course_id_def session_get_def error_response_def del: exn_str.simps)

section \<open>Exporting a report\<close>

text \<open>
  C10: when the body of an export request is a JSON object whose \<^verbatim>\<open>format\<close> is the
  string \<open>f\<close>, or which has no \<^verbatim>\<open>format\<close> (then \<open>f\<close> is \<^verbatim>\<open>pdf\<close>), the answer is
  status 200 with \<^verbatim>\<open>success\<close> true and the download URL
  \<^verbatim>\<open>/downloads/report_\<close>, the scan identifier, a dot and \<open>f\<close>, for every scan
  identifier and every \<open>f\<close>: no scan is looked up and \<open>f\<close> is not checked.
\<close>

theorem export_report_download_url:
  assumes "get_json req = Inr (PDict kvs)"
    and "map_of kvs ''format'' = Some (PStr f) \<or> (map_of kvs ''format'' = None \<and> f = ''pdf'')"
  shows "export_report scan_id req
           = (PDict [(''success'', PBool True),
                     (''download_url'', PStr (''/downloads/report_'' @ scan_id @ ''.'' @ f))],
              200)"
  using assms
  by (auto simp: export_report_def export_report_try_def and_then_def generate_report_def
      py_str_def)

theorem export_report_download_url_witness:
  "export_report ''no-such-scan'' (post (Inr (PDict [(''format'', PStr ''exe'')])))
     = (PDict [(''success'', PBool True),
               (''download_url'', PStr ''/downloads/report_no-such-scan.exe'')], 200) \<and>
   export_report ''no-such-scan'' (post (Inr (PDict [])))
     = (PDict [(''success'', PBool True),
               (''download_url'', PStr ''/downloads/report_no-such-scan.pdf'')], 200)"
proof -
  have asked: "get_json (post (Inr (PDict [(''format'', PStr ''exe'')])))
                 = Inr (PDict [(''format'', PStr ''exe'')])"
    and omitted: "get_json (post (Inr (PDict []))) = Inr (PDict [])"
    by (simp_all add: post_def)
  have "export_report ''no-such-scan'' (post (Inr (PDict [(''format'', PStr ''exe'')])))
     = (PDict [(''success'', PBool True),
               (''download_url'', PStr (''/downloads/report_'' @ ''no-such-scan'' @ ''.'' @ ''exe''))],
        200)"
    by (rule export_report_download_url[OF asked]) simp
  moreover have "export_report ''no-such-scan'' (post (Inr (PDict [])))
     = (PDict [(''success'', PBool True),
               (''download_url'', PStr (''/downloads/report_'' @ ''no-such-scan'' @ ''.'' @ ''pdf''))],
        200)"
    by (rule export_report_download_url[OF omitted]) simp
  ultimately show ?thesis by simp
qed

end
